theory Spec2Isabelle
  imports Complex_Main "HOL-Library.Word"
begin

section \<open>The event classes of \<^verbatim>\<open>core/event.py\<close>\<close>

text \<open>
  The module defines five event classes on top of an empty base class \<^verbatim>\<open>Event\<close>.
  Each class is a record holding the attributes its \<^verbatim>\<open>__init__\<close> assigns, in the order
  of the assignments. The attributes are untyped in the source; here
  \<^item> the tags, symbols, order types, signal types and directions are strings, as the
    literals of the source (\<^verbatim>\<open>'MARKET'\<close>, \<^verbatim>\<open>'MKT'\<close>, \<^verbatim>\<open>'BUY'\<close>) are;
  \<^item> quantities and strategy ids are Python integers, so \<open>int\<close>;
  \<^item> timestamps and prices are values the code only stores and never computes with, so
    they are the type parameters \<open>'t\<close> and \<open>'p\<close>;
  \<^item> an attribute that may hold Python's \<^verbatim>\<open>None\<close> is an \<open>option\<close>, with \<open>None\<close> for
    \<^verbatim>\<open>None\<close>.
\<close>

subsection \<open>Arguments with defaults\<close>

text \<open>
  A parameter declared with a default (\<^verbatim>\<open>order_type='MKT'\<close>) is either left out by the
  caller or given; when it is left out the default is bound.
\<close>

datatype 'a arg = Omitted | Given 'a

fun arg_or :: "'a \<Rightarrow> 'a arg \<Rightarrow> 'a" where
  "arg_or d Omitted = d"
| "arg_or d (Given v) = v"

subsection \<open>Identifiers\<close>

text \<open>
  \<^verbatim>\<open>uuid.uuid4()\<close> is a call into the standard library that reads the entropy source of
  the operating system and returns a 128-bit identifier. The value it returns is an
  input of the model: each constructor that calls it takes the identifier drawn as its
  first parameter.
\<close>

type_synonym uuid = "128 word"

subsection \<open>MarketEvent and ActionEvent\<close>

record MarketEvent =
  type :: string

definition MarketEvent_init :: MarketEvent where
  "MarketEvent_init = \<lparr>MarketEvent.type = ''MARKET''\<rparr>"

record ActionEvent =
  type :: string
  symbol :: string
  action_type :: string

definition ActionEvent_init :: "string \<Rightarrow> string \<Rightarrow> ActionEvent" where
  "ActionEvent_init symbol' action_type' =
     \<lparr>ActionEvent.type = ''ACTION'',
      ActionEvent.symbol = symbol',
      ActionEvent.action_type = action_type'\<rparr>"

subsection \<open>SignalEvent\<close>

record ('t, 'p) SignalEvent =
  type :: string
  strategy_id :: int
  symbol :: string
  datetime :: 't
  signal_type :: string
  quantity :: int
  stop_loss :: "'p option"
  profit_target :: "'p option"
  limit_price :: "'p option"
  stop_price :: "'p option"
  order_type :: string

text \<open>
  The parameters are in the order of the signature:
  \<^verbatim>\<open>symbol, datetime, signal_type, order_type='MKT', limit_price=None, stop_loss=None,
  profit_target=None, stop_price=None, quantity=10000, strategy_id=1\<close>.
  The body is eleven assignments and no check.
\<close>

definition SignalEvent_init ::
  "string \<Rightarrow> 't \<Rightarrow> string \<Rightarrow> string arg \<Rightarrow> 'p option arg \<Rightarrow> 'p option arg \<Rightarrow>
   'p option arg \<Rightarrow> 'p option arg \<Rightarrow> int arg \<Rightarrow> int arg \<Rightarrow> ('t, 'p) SignalEvent" where
  "SignalEvent_init symbol' datetime' signal_type' order_type' limit_price' stop_loss'
       profit_target' stop_price' quantity' strategy_id' =
     \<lparr>SignalEvent.type = ''SIGNAL'',
      SignalEvent.strategy_id = arg_or 1 strategy_id',
      SignalEvent.symbol = symbol',
      SignalEvent.datetime = datetime',
      SignalEvent.signal_type = signal_type',
      SignalEvent.quantity = arg_or 10000 quantity',
      SignalEvent.stop_loss = arg_or None stop_loss',
      SignalEvent.profit_target = arg_or None profit_target',
      SignalEvent.limit_price = arg_or None limit_price',
      SignalEvent.stop_price = arg_or None stop_price',
      SignalEvent.order_type = arg_or ''MKT'' order_type'\<rparr>"

subsection \<open>OrderEvent\<close>

record ('t, 'p) OrderEvent =
  type :: string
  order_id :: uuid
  direction :: string
  quantity :: int
  symbol :: string
  order_type :: string
  stop_loss :: "'p option"
  profit_target :: "'p option"
  limit_price :: "'p option"
  stop_price :: "'p option"
  entry_price :: "'p option"
  exit_price :: "'p option"
  entry_time :: "'t option"
  exit_time :: "'t option"
  profit :: "'p option"

text \<open>
  \<^verbatim>\<open>OrderEvent(signal, quantity, direction)\<close>; the first parameter of the model is the
  identifier \<^verbatim>\<open>uuid.uuid4()\<close> returns.
\<close>

definition OrderEvent_init ::
  "uuid \<Rightarrow> ('t, 'p) SignalEvent \<Rightarrow> int \<Rightarrow> string \<Rightarrow> ('t, 'p) OrderEvent" where
  "OrderEvent_init uuid4 signal quantity' direction' =
     \<lparr>OrderEvent.type = ''ORDER'',
      OrderEvent.order_id = uuid4,
      OrderEvent.direction = direction',
      OrderEvent.quantity = quantity',
      OrderEvent.symbol = SignalEvent.symbol signal,
      OrderEvent.order_type = SignalEvent.order_type signal,
      OrderEvent.stop_loss = SignalEvent.stop_loss signal,
      OrderEvent.profit_target = SignalEvent.profit_target signal,
      OrderEvent.limit_price = SignalEvent.limit_price signal,
      OrderEvent.stop_price = SignalEvent.stop_price signal,
      OrderEvent.entry_price = None,
      OrderEvent.exit_price = None,
      OrderEvent.entry_time = None,
      OrderEvent.exit_time = None,
      OrderEvent.profit = None\<rparr>"

text \<open>
  \<^verbatim>\<open>print_order\<close> writes one line to standard output; the model returns that line.
  \<^verbatim>\<open>%s\<close> renders a string as it is and an integer in decimal.
\<close>

fun str_nat :: "nat \<Rightarrow> string" where
  "str_nat n =
     (if n < 10 then [char_of (48 + n)]
      else str_nat (n div 10) @ [char_of (48 + n mod 10)])"

definition str_int :: "int \<Rightarrow> string" where
  "str_int i = (if i < 0 then CHR ''-'' # str_nat (nat (- i)) else str_nat (nat i))"

definition print_order :: "('t, 'p) OrderEvent \<Rightarrow> string" where
  "print_order self =
     ''Order: Symbol='' @ OrderEvent.symbol self @
     '', Type='' @ OrderEvent.order_type self @
     '', Quantity='' @ str_int (OrderEvent.quantity self) @
     '', Direction='' @ OrderEvent.direction self"

subsection \<open>What an OrderEvent answers to\<close>

text \<open>
  The names an \<^verbatim>\<open>OrderEvent\<close> instance carries: the fifteen attributes \<^verbatim>\<open>__init__\<close>
  assigns and the two methods of the class body. The base class \<^verbatim>\<open>Event\<close> has the body
  \<^verbatim>\<open>pass\<close> and adds none.
\<close>

definition OrderEvent_attributes :: "string list" where
  "OrderEvent_attributes =
     [''type'', ''order_id'', ''direction'', ''quantity'', ''symbol'', ''order_type'',
      ''stop_loss'', ''profit_target'', ''limit_price'', ''stop_price'', ''entry_price'',
      ''exit_price'', ''entry_time'', ''exit_time'', ''profit'']"

definition OrderEvent_methods :: "string list" where
  "OrderEvent_methods = [''__init__'', ''print_order'']"

text \<open>
  Every instance of a class that derives from \<^verbatim>\<open>object\<close> also carries the names the
  Python runtime binds: those of \<^verbatim>\<open>object\<close> itself and the \<^verbatim>\<open>__dict__\<close>, \<^verbatim>\<open>__doc__\<close>,
  \<^verbatim>\<open>__module__\<close> and \<^verbatim>\<open>__weakref__\<close> of the class machinery. They are no part of this
  module; the table is the one of CPython 3.11.
\<close>

definition object_attributes :: "string list" where
  "object_attributes =
     [''__class__'', ''__delattr__'', ''__dict__'', ''__dir__'', ''__doc__'', ''__eq__'',
      ''__format__'', ''__ge__'', ''__getattribute__'', ''__getstate__'', ''__gt__'',
      ''__hash__'', ''__init__'', ''__init_subclass__'', ''__le__'', ''__lt__'',
      ''__module__'', ''__ne__'', ''__new__'', ''__reduce__'', ''__reduce_ex__'',
      ''__repr__'', ''__setattr__'', ''__sizeof__'', ''__str__'', ''__subclasshook__'',
      ''__weakref__'']"

text \<open>
  Python resolves \<^verbatim>\<open>order.name\<close>, and so the first step of a call \<^verbatim>\<open>order.name(...)\<close>,
  on the instance, then on the class \<^verbatim>\<open>OrderEvent\<close>, then on its bases \<^verbatim>\<open>Event\<close> (empty)
  and \<^verbatim>\<open>object\<close>, and raises \<^verbatim>\<open>AttributeError\<close> when the name is nowhere. The
  \<^verbatim>\<open>__init__\<close> of the class comes before the one of \<^verbatim>\<open>object\<close>. The lookup reads the
  instance and writes nothing.
\<close>

datatype exn = AttributeError string

datatype attr_kind = InstanceAttribute | Method | Inherited

definition OrderEvent_getattr :: "string \<Rightarrow> exn + attr_kind" where
  "OrderEvent_getattr name =
     (if name \<in> set OrderEvent_attributes then Inr InstanceAttribute
      else if name \<in> set OrderEvent_methods then Inr Method
      else if name \<in> set object_attributes then Inr Inherited
      else Inl (AttributeError name))"

subsection \<open>FillEvent\<close>

text \<open>
  A fill keeps a reference to the order it fills, and the order stays with whoever else
  holds it. The orders therefore live in a store and the fill holds an address.
\<close>

type_synonym ref = nat

type_synonym ('t, 'p) heap = "ref \<Rightarrow> ('t, 'p) OrderEvent option"

record ('t, 'p) FillEvent =
  type :: string
  fill_id :: uuid
  order :: ref
  timeindex :: 't
  price :: 'p
  symbol :: string
  exchange :: string
  quantity :: int
  direction :: string
  commission :: "'p option"

text \<open>\<^verbatim>\<open>calculate_commission(self)\<close>: "Zero for now".\<close>

definition calculate_commission :: "('t, 'p::zero) FillEvent \<Rightarrow> 'p" where
  "calculate_commission self = 0"

text \<open>
  \<^verbatim>\<open>FillEvent(order, timeindex, price, symbol, exchange, quantity, direction,
  commission=None)\<close>. The first parameter is the identifier \<^verbatim>\<open>uuid.uuid4()\<close> returns,
  the last the store of orders, returned as the constructor leaves it. While
  \<^verbatim>\<open>calculate_commission\<close> runs, \<^verbatim>\<open>self\<close> has no commission yet.
\<close>

definition FillEvent_init ::
  "uuid \<Rightarrow> ref \<Rightarrow> 't \<Rightarrow> 'p \<Rightarrow> string \<Rightarrow> string \<Rightarrow> int \<Rightarrow> string \<Rightarrow> 'p option arg \<Rightarrow>
   ('t, 'p) heap \<Rightarrow> ('t, 'p::zero) FillEvent \<times> ('t, 'p) heap" where
  "FillEvent_init uuid4 order' timeindex' price' symbol' exchange' quantity' direction'
       commission' h =
     (let self = \<lparr>FillEvent.type = ''FILL'',
                  FillEvent.fill_id = uuid4,
                  FillEvent.order = order',
                  FillEvent.timeindex = timeindex',
                  FillEvent.price = price',
                  FillEvent.symbol = symbol',
                  FillEvent.exchange = exchange',
                  FillEvent.quantity = quantity',
                  FillEvent.direction = direction',
                  FillEvent.commission = None\<rparr>;
          c = arg_or None commission'
      in if c = None
         then (self\<lparr>FillEvent.commission := Some (calculate_commission self)\<rparr>, h)
         else (self\<lparr>FillEvent.commission := c\<rparr>, h))"

section \<open>Construction\<close>

text \<open>
  C3. For every SignalEvent \<open>s\<close>, every quantity and every direction, the OrderEvent built
  from them has the symbol, order type, stop loss, profit target, limit price and stop
  price of \<open>s\<close>, and its entry price, exit price, entry time, exit time and profit are
  all absent right after construction.
\<close>

theorem order_copies_signal_fields:
  "OrderEvent.symbol (OrderEvent_init u s q d) = SignalEvent.symbol s
   \<and> OrderEvent.order_type (OrderEvent_init u s q d) = SignalEvent.order_type s
   \<and> OrderEvent.stop_loss (OrderEvent_init u s q d) = SignalEvent.stop_loss s
   \<and> OrderEvent.profit_target (OrderEvent_init u s q d) = SignalEvent.profit_target s
   \<and> OrderEvent.limit_price (OrderEvent_init u s q d) = SignalEvent.limit_price s
   \<and> OrderEvent.stop_price (OrderEvent_init u s q d) = SignalEvent.stop_price s
   \<and> OrderEvent.entry_price (OrderEvent_init u s q d) = None
   \<and> OrderEvent.exit_price (OrderEvent_init u s q d) = None
   \<and> OrderEvent.entry_time (OrderEvent_init u s q d) = None
   \<and> OrderEvent.exit_time (OrderEvent_init u s q d) = None
   \<and> OrderEvent.profit (OrderEvent_init u s q d) = None"
  by (simp add: OrderEvent_init_def)

text \<open>
  C9. Two OrderEvents built from the same SignalEvent with the same quantity and the same
  direction agree on every field except possibly \<open>order_id\<close>: putting the identifier of
  the first into the second gives the first.
\<close>

theorem order_construction_deterministic_up_to_id:
  "OrderEvent_init u1 s q d = (OrderEvent_init u2 s q d)\<lparr>OrderEvent.order_id := u1\<rparr>"
  by (simp add: OrderEvent_init_def)

text \<open>
  C7. Every constructor sets the tag of its class whatever the inputs are (\<open>MARKET\<close>,
  \<open>ACTION\<close>, \<open>SIGNAL\<close>, \<open>ORDER\<close>, \<open>FILL\<close>) and stores each argument it is given in the
  field of the same name, as it is and whatever the other arguments are. A SignalEvent
  built without \<open>order_type\<close>, without \<open>quantity\<close> or without \<open>strategy_id\<close> has \<open>MKT\<close>,
  \<open>10000\<close> or \<open>1\<close> there, and one built without a limit price, stop loss, profit
  target or stop price has that field absent. The identifier of an order or a fill is the one drawn, and
  the commission of a fill is the one supplied (a fill with no commission is C4). The
  order stores the six fields it takes from its signal as the signal has them.
\<close>

theorem constructors_store_inputs:
  "MarketEvent.type MarketEvent_init = ''MARKET''
   \<and> ActionEvent.type (ActionEvent_init smb act) = ''ACTION''
   \<and> ActionEvent.symbol (ActionEvent_init smb act) = smb
   \<and> ActionEvent.action_type (ActionEvent_init smb act) = act
   \<and> SignalEvent.type (SignalEvent_init smb dt st a1 a2 a3 a4 a5 a6 a7) = ''SIGNAL''
   \<and> SignalEvent.symbol (SignalEvent_init smb dt st a1 a2 a3 a4 a5 a6 a7) = smb
   \<and> SignalEvent.datetime (SignalEvent_init smb dt st a1 a2 a3 a4 a5 a6 a7) = dt
   \<and> SignalEvent.signal_type (SignalEvent_init smb dt st a1 a2 a3 a4 a5 a6 a7) = st
   \<and> SignalEvent.order_type (SignalEvent_init smb dt st (Given ot) a2 a3 a4 a5 a6 a7) = ot
   \<and> SignalEvent.limit_price (SignalEvent_init smb dt st a1 (Given lp) a3 a4 a5 a6 a7) = lp
   \<and> SignalEvent.stop_loss (SignalEvent_init smb dt st a1 a2 (Given sl) a4 a5 a6 a7) = sl
   \<and> SignalEvent.profit_target (SignalEvent_init smb dt st a1 a2 a3 (Given pt) a5 a6 a7) = pt
   \<and> SignalEvent.stop_price (SignalEvent_init smb dt st a1 a2 a3 a4 (Given sp) a6 a7) = sp
   \<and> SignalEvent.quantity (SignalEvent_init smb dt st a1 a2 a3 a4 a5 (Given n) a7) = n
   \<and> SignalEvent.strategy_id (SignalEvent_init smb dt st a1 a2 a3 a4 a5 a6 (Given sid)) = sid
   \<and> SignalEvent.order_type (SignalEvent_init smb dt st Omitted a2 a3 a4 a5 a6 a7) = ''MKT''
   \<and> SignalEvent.limit_price (SignalEvent_init smb dt st a1 Omitted a3 a4 a5 a6 a7) = None
   \<and> SignalEvent.stop_loss (SignalEvent_init smb dt st a1 a2 Omitted a4 a5 a6 a7) = None
   \<and> SignalEvent.profit_target (SignalEvent_init smb dt st a1 a2 a3 Omitted a5 a6 a7) = None
   \<and> SignalEvent.stop_price (SignalEvent_init smb dt st a1 a2 a3 a4 Omitted a6 a7) = None
   \<and> SignalEvent.quantity (SignalEvent_init smb dt st a1 a2 a3 a4 a5 Omitted a7) = 10000
   \<and> SignalEvent.strategy_id (SignalEvent_init smb dt st a1 a2 a3 a4 a5 a6 Omitted) = 1
   \<and> OrderEvent.type (OrderEvent_init u s q d) = ''ORDER''
   \<and> OrderEvent.order_id (OrderEvent_init u s q d) = u
   \<and> OrderEvent.direction (OrderEvent_init u s q d) = d
   \<and> OrderEvent.quantity (OrderEvent_init u s q d) = q
   \<and> OrderEvent.symbol (OrderEvent_init u s q d) = SignalEvent.symbol s
   \<and> OrderEvent.order_type (OrderEvent_init u s q d) = SignalEvent.order_type s
   \<and> OrderEvent.stop_loss (OrderEvent_init u s q d) = SignalEvent.stop_loss s
   \<and> OrderEvent.profit_target (OrderEvent_init u s q d) = SignalEvent.profit_target s
   \<and> OrderEvent.limit_price (OrderEvent_init u s q d) = SignalEvent.limit_price s
   \<and> OrderEvent.stop_price (OrderEvent_init u s q d) = SignalEvent.stop_price s
   \<and> FillEvent.type (fst (FillEvent_init u r ti p smb ex q d a8 h)) = ''FILL''
   \<and> FillEvent.fill_id (fst (FillEvent_init u r ti p smb ex q d a8 h)) = u
   \<and> FillEvent.order (fst (FillEvent_init u r ti p smb ex q d a8 h)) = r
   \<and> FillEvent.timeindex (fst (FillEvent_init u r ti p smb ex q d a8 h)) = ti
   \<and> FillEvent.price (fst (FillEvent_init u r ti p smb ex q d a8 h)) = p
   \<and> FillEvent.symbol (fst (FillEvent_init u r ti p smb ex q d a8 h)) = smb
   \<and> FillEvent.exchange (fst (FillEvent_init u r ti p smb ex q d a8 h)) = ex
   \<and> FillEvent.quantity (fst (FillEvent_init u r ti p smb ex q d a8 h)) = q
   \<and> FillEvent.direction (fst (FillEvent_init u r ti p smb ex q d a8 h)) = d
   \<and> FillEvent.commission (fst (FillEvent_init u r ti p smb ex q d (Given (Some c)) h)) = Some c"
  by (simp add: MarketEvent_init_def ActionEvent_init_def SignalEvent_init_def
      OrderEvent_init_def FillEvent_init_def Let_def)

section \<open>Commission\<close>

text \<open>
  C4. A FillEvent built without a commission (the argument left out, or \<^verbatim>\<open>None\<close>) stores
  what \<^verbatim>\<open>calculate_commission\<close> returns, which is 0 for every fill; a FillEvent built
  with a commission \<open>c\<close> stores \<open>c\<close>, whatever \<open>c\<close> is.
\<close>

theorem fill_commission_resolution:
  "calculate_commission f = 0
   \<and> FillEvent.commission (fst (FillEvent_init u r ti p smb ex q d Omitted h)) = Some 0
   \<and> FillEvent.commission (fst (FillEvent_init u r ti p smb ex q d (Given None) h)) = Some 0
   \<and> FillEvent.commission (fst (FillEvent_init u r ti p smb ex q d (Given (Some c)) h))
       = Some c"
  by (simp add: FillEvent_init_def calculate_commission_def Let_def)

text \<open>
  C10. The commission of a constructed FillEvent is never absent, whatever the commission
  argument was: a fill built with no commission stores what \<^verbatim>\<open>calculate_commission\<close>
  returns, and a FillEvent built with the commission 0 is the FillEvent built with no
  commission (for the same identifier and the same other arguments).
\<close>

theorem fill_commission_never_absent:
  "FillEvent.commission (fst (FillEvent_init u r ti p smb ex q d a h)) \<noteq> None
   \<and> FillEvent.commission (fst (FillEvent_init u r ti p smb ex q d Omitted h))
       = Some (calculate_commission f)
   \<and> FillEvent_init u r ti p smb ex q d (Given (Some 0)) h
       = FillEvent_init u r ti p smb ex q d Omitted h
   \<and> FillEvent_init u r ti p smb ex q d (Given (Some 0)) h
       = FillEvent_init u r ti p smb ex q d (Given None) h"
  by (cases a) (auto simp add: FillEvent_init_def calculate_commission_def Let_def)

section \<open>The order a fill refers to\<close>

text \<open>
  C8. Building a FillEvent for the order at address \<open>r\<close> leaves the store of orders as it
  was, so the order at \<open>r\<close> keeps every field (identifier, fields copied from the signal,
  lifecycle fields); the fill holds the address \<open>r\<close> and nothing else of the order.
\<close>

theorem fill_leaves_order_store_unchanged:
  "snd (FillEvent_init u r ti p smb ex q d a h) = h
   \<and> snd (FillEvent_init u r ti p smb ex q d a h) r = h r
   \<and> FillEvent.order (fst (FillEvent_init u r ti p smb ex q d a h)) = r"
  by (simp add: FillEvent_init_def Let_def)

section \<open>Conditionally required prices\<close>

text \<open>
  C1 says that a SignalEvent with order type \<open>LMT\<close> and no limit price cannot be built.
  It can: the constructor has no check and no \<^verbatim>\<open>raise\<close>, and for these arguments it
  returns the instance below, with \<open>order_type = LMT\<close> and \<open>limit_price\<close> absent.
\<close>

theorem signal_lmt_without_limit_price_is_built:
  "SignalEvent_init ''GOOG'' (0::nat) ''LONG'' (Given ''LMT'') Omitted Omitted Omitted
       Omitted Omitted Omitted =
     \<lparr>SignalEvent.type = ''SIGNAL'', SignalEvent.strategy_id = 1,
      SignalEvent.symbol = ''GOOG'', SignalEvent.datetime = 0,
      SignalEvent.signal_type = ''LONG'', SignalEvent.quantity = 10000,
      SignalEvent.stop_loss = None, SignalEvent.profit_target = None,
      SignalEvent.limit_price = (None :: rat option), SignalEvent.stop_price = None,
      SignalEvent.order_type = ''LMT''\<rparr>"
  by (simp add: SignalEvent_init_def)

text \<open>
  C1, amended. Construction checks nothing. A SignalEvent asked for with order type
  \<open>LMT\<close> and no limit price (left out, or \<^verbatim>\<open>None\<close>) is built with \<open>order_type = LMT\<close>
  and \<open>limit_price\<close> absent, and likewise with \<open>STP\<close> and no stop price; the OrderEvent
  built from any SignalEvent has the signal's order type, limit price and stop price,
  absent where they are absent in the signal.
\<close>

theorem construction_checks_no_price:
  "SignalEvent.order_type
       (SignalEvent_init smb dt st (Given ''LMT'') Omitted a3 a4 a5 a6 a7) = ''LMT''
   \<and> SignalEvent.limit_price
       (SignalEvent_init smb dt st (Given ''LMT'') Omitted a3 a4 a5 a6 a7) = None
   \<and> SignalEvent.order_type
       (SignalEvent_init smb dt st (Given ''LMT'') (Given None) a3 a4 a5 a6 a7) = ''LMT''
   \<and> SignalEvent.limit_price
       (SignalEvent_init smb dt st (Given ''LMT'') (Given None) a3 a4 a5 a6 a7) = None
   \<and> SignalEvent.order_type
       (SignalEvent_init smb dt st (Given ''STP'') a2 a3 a4 Omitted a6 a7) = ''STP''
   \<and> SignalEvent.stop_price
       (SignalEvent_init smb dt st (Given ''STP'') a2 a3 a4 Omitted a6 a7) = None
   \<and> SignalEvent.order_type
       (SignalEvent_init smb dt st (Given ''STP'') a2 a3 a4 (Given None) a6 a7) = ''STP''
   \<and> SignalEvent.stop_price
       (SignalEvent_init smb dt st (Given ''STP'') a2 a3 a4 (Given None) a6 a7) = None
   \<and> OrderEvent.order_type (OrderEvent_init u s q d) = SignalEvent.order_type s
   \<and> OrderEvent.limit_price (OrderEvent_init u s q d) = SignalEvent.limit_price s
   \<and> OrderEvent.stop_price (OrderEvent_init u s q d) = SignalEvent.stop_price s"
  by (simp add: SignalEvent_init_def OrderEvent_init_def)

section \<open>The lifecycle fields\<close>

text \<open>
  C2 says that \<^verbatim>\<open>record_entry\<close> sets the entry fields. On the code the name
  \<^verbatim>\<open>record_entry\<close> resolves to nothing on an OrderEvent: the call raises
  \<^verbatim>\<open>AttributeError\<close> at the lookup, and the entry price of a new order is still absent.
\<close>

theorem record_entry_is_not_an_attribute:
  "OrderEvent_getattr ''record_entry'' = Inl (AttributeError ''record_entry'')
   \<and> OrderEvent.entry_price
       (OrderEvent_init 1
          (SignalEvent_init ''GOOG'' (0::nat) ''LONG'' Omitted Omitted Omitted Omitted
             Omitted Omitted Omitted) 50 ''BUY'') = (None :: rat option)"
  by (simp add: OrderEvent_getattr_def OrderEvent_attributes_def OrderEvent_methods_def
      object_attributes_def OrderEvent_init_def)

text \<open>
  C2, amended. The methods this module gives an OrderEvent are \<^verbatim>\<open>__init__\<close> and
  \<^verbatim>\<open>print_order\<close> and no other. A call of \<^verbatim>\<open>record_entry\<close> or of \<^verbatim>\<open>record_exit\<close> raises \<^verbatim>\<open>AttributeError\<close> when
  the name is looked up, which writes nothing. The entry price, entry time, exit price,
  exit time and profit are attributes of the instance.
\<close>

theorem order_methods_are_init_and_print_order:
  "{name. OrderEvent_getattr name = Inr Method} = {''__init__'', ''print_order''}
   \<and> OrderEvent_getattr ''record_entry'' = Inl (AttributeError ''record_entry'')
   \<and> OrderEvent_getattr ''record_exit'' = Inl (AttributeError ''record_exit'')
   \<and> OrderEvent_getattr ''entry_price'' = Inr InstanceAttribute
   \<and> OrderEvent_getattr ''entry_time'' = Inr InstanceAttribute
   \<and> OrderEvent_getattr ''exit_price'' = Inr InstanceAttribute
   \<and> OrderEvent_getattr ''exit_time'' = Inr InstanceAttribute
   \<and> OrderEvent_getattr ''profit'' = Inr InstanceAttribute"
proof -
  have methods: "{name. OrderEvent_getattr name = Inr Method} = {''__init__'', ''print_order''}"
    unfolding OrderEvent_getattr_def OrderEvent_attributes_def OrderEvent_methods_def
    by (auto split: if_splits)
  have lookups:
    "OrderEvent_getattr ''record_entry'' = Inl (AttributeError ''record_entry'')"
    "OrderEvent_getattr ''record_exit'' = Inl (AttributeError ''record_exit'')"
    "OrderEvent_getattr ''entry_price'' = Inr InstanceAttribute"
    "OrderEvent_getattr ''entry_time'' = Inr InstanceAttribute"
    "OrderEvent_getattr ''exit_price'' = Inr InstanceAttribute"
    "OrderEvent_getattr ''exit_time'' = Inr InstanceAttribute"
    "OrderEvent_getattr ''profit'' = Inr InstanceAttribute"
    by (simp_all add: OrderEvent_getattr_def OrderEvent_attributes_def
        OrderEvent_methods_def object_attributes_def)
  from methods lookups show ?thesis by simp
qed

section \<open>The GOOG scenario\<close>

text \<open>
  C5 says that after \<^verbatim>\<open>record_entry(100.25, t1)\<close> and \<^verbatim>\<open>record_exit(105.00, t2)\<close> the
  order of the scenario has the profit 237.50. On the code neither name resolves on the
  order (\<^verbatim>\<open>AttributeError\<close>), and the profit of the order is absent.
\<close>

theorem scenario_profit_is_absent:
  "OrderEvent_getattr ''record_entry'' = Inl (AttributeError ''record_entry'')
   \<and> OrderEvent_getattr ''record_exit'' = Inl (AttributeError ''record_exit'')
   \<and> OrderEvent.profit
       (OrderEvent_init 1
          (SignalEvent_init ''GOOG'' (0::nat) ''LONG'' (Given ''LMT'')
             (Given (Some (100.50::rat))) Omitted Omitted Omitted (Given 10000) Omitted)
          50 ''BUY'') \<noteq> Some 237.50"
  by (simp add: OrderEvent_getattr_def OrderEvent_attributes_def OrderEvent_methods_def
      object_attributes_def OrderEvent_init_def)

text \<open>
  C5, amended. In the scenario (for every timestamp of the signal and every identifier
  drawn) the order has the limit price 100.50, the quantity 50 and the direction
  \<open>BUY\<close>, and its entry price and its profit are absent; \<^verbatim>\<open>record_entry\<close> and
  \<^verbatim>\<open>record_exit\<close> raise \<^verbatim>\<open>AttributeError\<close> at the lookup.
\<close>

theorem scenario_order_after_construction:
  "OrderEvent.limit_price
       (OrderEvent_init u
          (SignalEvent_init ''GOOG'' dt ''LONG'' (Given ''LMT'')
             (Given (Some (100.50::rat))) Omitted Omitted Omitted (Given 10000) Omitted)
          50 ''BUY'') = Some 100.50
   \<and> OrderEvent.quantity
       (OrderEvent_init u
          (SignalEvent_init ''GOOG'' dt ''LONG'' (Given ''LMT'')
             (Given (Some (100.50::rat))) Omitted Omitted Omitted (Given 10000) Omitted)
          50 ''BUY'') = 50
   \<and> OrderEvent.direction
       (OrderEvent_init u
          (SignalEvent_init ''GOOG'' dt ''LONG'' (Given ''LMT'')
             (Given (Some (100.50::rat))) Omitted Omitted Omitted (Given 10000) Omitted)
          50 ''BUY'') = ''BUY''
   \<and> OrderEvent.entry_price
       (OrderEvent_init u
          (SignalEvent_init ''GOOG'' dt ''LONG'' (Given ''LMT'')
             (Given (Some (100.50::rat))) Omitted Omitted Omitted (Given 10000) Omitted)
          50 ''BUY'') = None
   \<and> OrderEvent.profit
       (OrderEvent_init u
          (SignalEvent_init ''GOOG'' dt ''LONG'' (Given ''LMT'')
             (Given (Some (100.50::rat))) Omitted Omitted Omitted (Given 10000) Omitted)
          50 ''BUY'') = None
   \<and> OrderEvent_getattr ''record_entry'' = Inl (AttributeError ''record_entry'')
   \<and> OrderEvent_getattr ''record_exit'' = Inl (AttributeError ''record_exit'')"
  by (simp add: OrderEvent_getattr_def OrderEvent_attributes_def OrderEvent_methods_def
      object_attributes_def OrderEvent_init_def SignalEvent_init_def)

end
